theory Spec2Isabelle
  imports Main "HOL-Library.Char_ord" "HOL-Library.List_Lexorder"
begin

section \<open>Data model (accounts/models.py)\<close>

text \<open>
  Timestamps are natural numbers (seconds); primary keys are natural numbers handed out
  by the storage layer. A table is the list of its rows, in insertion order. A string is
  the list of its characters, a character being its code point (below 256).
\<close>

type_synonym time = nat

text \<open>
  \<^verbatim>\<open>class Role(models.Model)\<close>: an instance that has not been saved has no primary key
  (\<open>role_pk = None\<close>). The timestamps \<open>created_at\<close>/\<open>updated_at\<close> play no part in any
  operation below and are left out.
\<close>

record role =
  role_pk :: "nat option"
  role_name :: string
  role_slug :: string
  role_description :: "string option"
  role_is_active :: bool

text \<open>
  The user model of \<open>django.contrib.auth\<close>, with the fields \<open>RegisterSerializer\<close> writes.
  \<open>user_password\<close> stands for the stored credential: \<open>set_password p\<close> stores \<open>p\<close> and
  \<open>check_password\<close> compares with it (the hash is not modelled).
\<close>

record user =
  user_id :: nat
  user_username :: string
  user_email :: string
  user_password :: string
  user_first_name :: string
  user_last_name :: string
  user_is_active :: bool

text \<open>\<^verbatim>\<open>class Profile(models.Model)\<close>, one-to-one with a user (picture left out).\<close>

record profile =
  profile_user :: nat
  profile_phone :: "string option"
  profile_bio :: "string option"

text \<open>\<^verbatim>\<open>class UserRole(models.Model)\<close>: one row of the through table.\<close>

record userrole =
  ur_id :: nat
  ur_user :: nat
  ur_role :: nat
  ur_is_active :: bool
  ur_assigned_at :: time
  ur_revoked_at :: "time option"
  ur_assigned_by :: "nat option"
  ur_note :: "string option"

text \<open>
  Tokens of \<open>rest_framework_simplejwt\<close>: the signature is trusted, so a token is its
  payload. \<open>tok_claims\<close> holds the snapshot that \<open>get_token\<close> embeds at login.
\<close>

datatype token_type = Refresh | Access

record snapshot =
  snap_username :: string
  snap_email :: string
  snap_roles :: "string list"

record token =
  tok_type :: token_type
  tok_jti :: nat
  tok_user :: nat
  tok_exp :: time
  tok_claims :: "snapshot option"

text \<open>
  The stored state: the tables, the blacklist app's two tables, and the sequences the
  storage layer draws fresh keys from.
\<close>

record db =
  users :: "user list"
  profiles :: "profile list"
  roles :: "role list"
  userroles :: "userrole list"
  outstanding :: "token list"
  blacklisted :: "nat list"
  user_seq :: nat
  userrole_seq :: nat
  jti_seq :: nat

text \<open>Messages of the field-scoped validation errors.\<close>

datatype detail =
  Password_fields_didnt_match
  | Email_already_registered
  | A_user_with_that_username_already_exists
  | Field_invalid string

text \<open>Every exception an operation below can end with.\<close>

datatype error =
  ValueError string
  | ValidationError "(string \<times> detail) list"
  | DoesNotExist
  | MultipleObjectsReturned
  | AuthenticationFailed
  | InvalidToken

section \<open>Queries\<close>

text \<open>
  \<^verbatim>\<open>QuerySet.get()\<close>: the single matching row, \<open>DoesNotExist\<close> when there is none,
  \<open>MultipleObjectsReturned\<close> when there are several.
\<close>

fun queryset_get :: "'a list \<Rightarrow> error + 'a" where
  "queryset_get [] = Inl DoesNotExist"
| "queryset_get [x] = Inr x"
| "queryset_get (x # y # zs) = Inl MultipleObjectsReturned"

text \<open>The rows of the through table for one (user, role) pair.\<close>

definition pair_rows :: "db \<Rightarrow> nat \<Rightarrow> nat \<Rightarrow> userrole list" where
  "pair_rows d u rid = filter (\<lambda>r. ur_user r = u \<and> ur_role r = rid) (userroles d)"

text \<open>
  The join of \<open>has_role\<close> and \<open>get_active_roles\<close>: the row of the Role table a mapping
  refers to.
\<close>

definition refers_to :: "userrole \<Rightarrow> role \<Rightarrow> bool" where
  "refers_to m r = (role_pk r = Some (ur_role m))"

section \<open>Profile (accounts/models.py)\<close>

text \<open>
  \<^verbatim>\<open>
  def has_role(self, role_slug):
      return UserRole.objects.filter(user=self.user, role__slug=role_slug,
                                     is_active=True, role__is_active=True).exists()
  \<close>
\<close>

definition has_role :: "db \<Rightarrow> nat \<Rightarrow> string \<Rightarrow> bool" where
  "has_role d u role_slug_arg =
     (filter (\<lambda>m. ur_user m = u \<and> ur_is_active m
                 \<and> list_ex (\<lambda>r. refers_to m r \<and> role_slug r = role_slug_arg \<and> role_is_active r) (roles d))
        (userroles d) \<noteq> [])"

text \<open>
  \<^verbatim>\<open>
  def get_active_roles(self):
      return Role.objects.filter(userrole__user=self.user, userrole__is_active=True, is_active=True)
  \<close>
  The query joins Role with the through table, so a role comes once per matching mapping;
  \<open>Role.Meta.ordering\<close> sorts the result by name.
\<close>

definition get_active_roles :: "db \<Rightarrow> nat \<Rightarrow> role list" where
  "get_active_roles d u =
     concat (map (\<lambda>r. map (\<lambda>m. r)
                         (filter (\<lambda>m. refers_to m r \<and> ur_user m = u \<and> ur_is_active m) (userroles d)))
                 (sort_key role_name (filter role_is_active (roles d))))"

text \<open>
  \<^verbatim>\<open>UserRole.objects.get_or_create(user=..., role=..., defaults={...})\<close>: the row of the
  pair when there is one (\<open>created = False\<close>); otherwise a new row from the defaults, with
  a fresh key and the model's default \<open>revoked_at = None\<close> (\<open>created = True\<close>).
\<close>

definition UserRole_get_or_create ::
  "db \<Rightarrow> nat \<Rightarrow> nat \<Rightarrow> nat option \<Rightarrow> string option \<Rightarrow> time \<Rightarrow> (error + userrole \<times> bool) \<times> db" where
  "UserRole_get_or_create d u rid assigned_by note_arg now =
     (case queryset_get (pair_rows d u rid) of
        Inr ur \<Rightarrow> (Inr (ur, False), d)
      | Inl MultipleObjectsReturned \<Rightarrow> (Inl MultipleObjectsReturned, d)
      | Inl _ \<Rightarrow>
          (let ur = \<lparr>ur_id = userrole_seq d, ur_user = u, ur_role = rid, ur_is_active = True,
                     ur_assigned_at = now, ur_revoked_at = None,
                     ur_assigned_by = assigned_by, ur_note = note_arg\<rparr>
           in (Inr (ur, True),
               d\<lparr>userroles := userroles d @ [ur], userrole_seq := Suc (userrole_seq d)\<rparr>)))"

text \<open>\<^verbatim>\<open>ur.save()\<close> of a row that has a key: the stored row with that key is overwritten.\<close>

definition UserRole_save :: "db \<Rightarrow> userrole \<Rightarrow> db" where
  "UserRole_save d ur = d\<lparr>userroles := map (\<lambda>r. if ur_id r = ur_id ur then ur else r) (userroles d)\<rparr>"

text \<open>
  Python truth of \<^verbatim>\<open>role.pk\<close> (neither \<open>None\<close> nor \<open>0\<close>) and of \<^verbatim>\<open>note\<close> (neither
  \<open>None\<close> nor the empty string).
\<close>

definition pk_truthy :: "nat option \<Rightarrow> bool" where
  "pk_truthy pk = (case pk of None \<Rightarrow> False | Some k \<Rightarrow> k \<noteq> 0)"

definition note_truthy :: "string option \<Rightarrow> bool" where
  "note_truthy n = (case n of None \<Rightarrow> False | Some s \<Rightarrow> s \<noteq> [])"

text \<open>
  \<^verbatim>\<open>
  def add_role(self, role, assigned_by=None, note=None):
      if not role.pk:
          raise ValueError("role must be saved (have a primary key) before assigning")
      if not role.is_active:
          raise ValueError("cannot assign an inactive Role")
      ur, created = UserRole.objects.get_or_create(user=self.user, role=role, defaults={
          "assigned_by": assigned_by, "note": note, "is_active": True,
          "assigned_at": timezone.now()})
      if not created:
          ur.is_active = True
          ur.assigned_by = assigned_by or ur.assigned_by
          if note:
              ur.note = note
          ur.assigned_at = timezone.now()
          ur.save()
      return ur
  \<close>
  \<open>u\<close> is \<open>self.user\<close>; \<open>now0\<close> and \<open>now1\<close> are the two readings of the clock. A user
  instance is always true in Python, so \<open>assigned_by or ur.assigned_by\<close> keeps the old
  value exactly when the argument is \<open>None\<close>. The result is the outcome together with the
  stored state the call leaves behind.
\<close>

definition add_role ::
  "db \<Rightarrow> nat \<Rightarrow> role \<Rightarrow> nat option \<Rightarrow> string option \<Rightarrow> time \<Rightarrow> time \<Rightarrow> (error + userrole) \<times> db" where
  "add_role d u r assigned_by note_arg now0 now1 =
     (if \<not> pk_truthy (role_pk r)
      then (Inl (ValueError ''role must be saved (have a primary key) before assigning''), d)
      else if \<not> role_is_active r
      then (Inl (ValueError ''cannot assign an inactive Role''), d)
      else
        (case UserRole_get_or_create d u (the (role_pk r)) assigned_by note_arg now0 of
           (Inl e, d') \<Rightarrow> (Inl e, d')
         | (Inr (ur, created), d') \<Rightarrow>
             (if \<not> created
              then
                (let ur1 = ur\<lparr>ur_is_active := True\<rparr>;
                     ur2 = ur1\<lparr>ur_assigned_by :=
                                 (case assigned_by of Some a \<Rightarrow> Some a | None \<Rightarrow> ur_assigned_by ur1)\<rparr>;
                     ur3 = (if note_truthy note_arg then ur2\<lparr>ur_note := note_arg\<rparr> else ur2);
                     ur4 = ur3\<lparr>ur_assigned_at := now1\<rparr>
                 in (Inr ur4, UserRole_save d' ur4))
              else (Inr ur, d'))))"

text \<open>
  \<^verbatim>\<open>
  def remove_role(self, role):
      UserRole.objects.filter(user=self.user, role=role, is_active=True).update(
          is_active=False, revoked_at=timezone.now())
  \<close>
  An unsaved role matches no row.
\<close>

definition remove_role :: "db \<Rightarrow> nat \<Rightarrow> role \<Rightarrow> time \<Rightarrow> db" where
  "remove_role d u r now =
     d\<lparr>userroles :=
         map (\<lambda>m. if ur_user m = u \<and> refers_to m r \<and> ur_is_active m
                   then m\<lparr>ur_is_active := False, ur_revoked_at := Some now\<rparr>
                   else m)
             (userroles d)\<rparr>"

section \<open>Settings (lll_backend/settings.py)\<close>

text \<open>
  \<^verbatim>\<open>
  SIMPLE_JWT = {
      "ACCESS_TOKEN_LIFETIME": timedelta(minutes=30),
      "REFRESH_TOKEN_LIFETIME": timedelta(days=1),
      "ROTATE_REFRESH_TOKENS": True,
      "BLACKLIST_AFTER_ROTATION": True, ...}
  \<close>
  and \<^verbatim>\<open>rest_framework_simplejwt.token_blacklist\<close> is one of \<open>INSTALLED_APPS\<close>.
\<close>

definition ACCESS_TOKEN_LIFETIME :: time where
  "ACCESS_TOKEN_LIFETIME = 30 * 60"

definition REFRESH_TOKEN_LIFETIME :: time where
  "REFRESH_TOKEN_LIFETIME = 24 * 60 * 60"

definition ROTATE_REFRESH_TOKENS :: bool where
  "ROTATE_REFRESH_TOKENS = True"

definition BLACKLIST_AFTER_ROTATION :: bool where
  "BLACKLIST_AFTER_ROTATION = True"

section \<open>Token issuance\<close>

text \<open>
  Modelled from the spec: \<open>RefreshToken.for_user\<close> and \<open>RefreshToken.access_token\<close> belong
  to the token library, which is not among the sources. The spec has every issuance give
  a fresh pair with the configured lifetimes; with the blacklist app installed a new
  refresh token is recorded as outstanding. Fresh token identifiers come from \<open>jti_seq\<close>.
  The access token carries over the custom claims of the refresh token.
\<close>

definition RefreshToken_for_user :: "db \<Rightarrow> user \<Rightarrow> time \<Rightarrow> token \<times> db" where
  "RefreshToken_for_user d u now =
     (let t = \<lparr>tok_type = Refresh, tok_jti = jti_seq d, tok_user = user_id u,
                tok_exp = now + REFRESH_TOKEN_LIFETIME, tok_claims = None\<rparr>
      in (t, d\<lparr>outstanding := outstanding d @ [t], jti_seq := Suc (jti_seq d)\<rparr>))"

definition access_token :: "db \<Rightarrow> token \<Rightarrow> time \<Rightarrow> token \<times> db" where
  "access_token d refresh now =
     (\<lparr>tok_type = Access, tok_jti = jti_seq d, tok_user = tok_user refresh,
       tok_exp = now + ACCESS_TOKEN_LIFETIME, tok_claims = tok_claims refresh\<rparr>,
      d\<lparr>jti_seq := Suc (jti_seq d)\<rparr>)"

section \<open>Registration (accounts/serializers.py, accounts/views.py)\<close>

record register_request =
  req_username :: string
  req_email :: string
  req_password :: string
  req_password2 :: string
  req_first_name :: string
  req_last_name :: string

record register_response =
  resp_refresh :: token
  resp_access :: token
  resp_username :: string
  resp_email :: string
  resp_roles :: "string list"

text \<open>
  \<^verbatim>\<open>
  def validate(self, attrs):
      if attrs.get("password") != attrs.get("password2"):
          raise serializers.ValidationError({"password": "Password fields didn't match."})
      if User.objects.filter(email=attrs.get("email")).exists():
          raise serializers.ValidationError({"email": "Email already registered."})
      return attrs
  \<close>
\<close>

definition RegisterSerializer_validate :: "db \<Rightarrow> register_request \<Rightarrow> error + register_request" where
  "RegisterSerializer_validate d attrs =
     (if req_password attrs \<noteq> req_password2 attrs
      then Inl (ValidationError [(''password'', Password_fields_didnt_match)])
      else if filter (\<lambda>u. user_email u = req_email attrs) (users d) \<noteq> []
      then Inl (ValidationError [(''email'', Email_already_registered)])
      else Inr attrs)"

text \<open>
  \<^verbatim>\<open>
  @receiver(post_save, sender=settings.AUTH_USER_MODEL)
  def create_or_ensure_profile(sender, instance, created, **kwargs):
      if created:
          Profile.objects.create(user=instance)
      else:
          Profile.objects.get_or_create(user=instance)
  \<close>
  The relation is one-to-one, so the lookup of the second branch finds at most one row.
\<close>

definition create_or_ensure_profile :: "db \<Rightarrow> user \<Rightarrow> bool \<Rightarrow> db" where
  "create_or_ensure_profile d instance created =
     (let fresh = \<lparr>profile_user = user_id instance, profile_phone = None, profile_bio = None\<rparr>
      in if created then d\<lparr>profiles := profiles d @ [fresh]\<rparr>
         else if filter (\<lambda>p. profile_user p = user_id instance) (profiles d) = []
         then d\<lparr>profiles := profiles d @ [fresh]\<rparr>
         else d)"

text \<open>
  \<^verbatim>\<open>
  def create(self, validated_data):
      validated_data.pop("password2", None)
      password = validated_data.pop("password")
      user = User(**validated_data)
      user.set_password(password)
      user.save()
      return user
  \<close>
  Saving a new user inserts it under a fresh key and fires \<open>post_save\<close> with
  \<open>created = True\<close>.
\<close>

definition RegisterSerializer_create :: "db \<Rightarrow> register_request \<Rightarrow> user \<times> db" where
  "RegisterSerializer_create d validated_data =
     (let u = \<lparr>user_id = user_seq d,
                user_username = req_username validated_data,
                user_email = req_email validated_data,
                user_password = req_password validated_data,
                user_first_name = req_first_name validated_data,
                user_last_name = req_last_name validated_data,
                user_is_active = True\<rparr>;
          d1 = d\<lparr>users := users d @ [u], user_seq := Suc (user_seq d)\<rparr>
      in (u, create_or_ensure_profile d1 u True))"

text \<open>\<^verbatim>\<open>Role.objects.get(id=k)\<close>.\<close>

definition Role_get :: "db \<Rightarrow> nat \<Rightarrow> error + role" where
  "Role_get d k = queryset_get (filter (\<lambda>r. role_pk r = Some k) (roles d))"

text \<open>
  The tail of \<open>RegisterView.create\<close>:
  \<^verbatim>\<open>
      refresh = RefreshToken.for_user(user)
      data = {"refresh": str(refresh), "access": str(refresh.access_token),
              "username": user.username, "email": user.email,
              "roles": [r.slug for r in user.profile.get_active_roles()]}
      return Response(data, status=status.HTTP_201_CREATED)
  \<close>
\<close>

definition issue_response :: "db \<Rightarrow> user \<Rightarrow> time \<Rightarrow> (error + register_response) \<times> db" where
  "issue_response d u now =
     (let (refresh, d1) = RefreshToken_for_user d u now;
          (access, d2) = access_token d1 refresh now
      in (Inr \<lparr>resp_refresh = refresh, resp_access = access,
               resp_username = user_username u, resp_email = user_email u,
               resp_roles = map role_slug (get_active_roles d2 (user_id u))\<rparr>, d2))"

text \<open>
  \<^verbatim>\<open>
  password = serializers.CharField(write_only=True, required=True, validators=[validate_password])
  password2 = serializers.CharField(write_only=True, required=True)
  fields = ("id", "username", "email", "password", "password2", "first_name", "last_name")
  \<close>
  Every writable field of \<open>RegisterSerializer\<close> is a character field of the framework and
  none sets \<open>trim_whitespace=False\<close>, so \<open>is_valid\<close> strips each value (Python's
  \<open>str.strip()\<close>) before any validator and before \<open>validate\<close> sees it. \<open>is_space\<close> is
  Python's \<open>str.isspace\<close> on the code points below 256.
\<close>

definition is_space :: "char \<Rightarrow> bool" where
  "is_space c = (of_char c \<in> set [9, 10, 11, 12, 13, 28, 29, 30, 31, 32, 133, 160 :: nat])"

definition strip :: "string \<Rightarrow> string" where
  "strip s = rev (dropWhile is_space (rev (dropWhile is_space s)))"

definition to_internal_value :: "register_request \<Rightarrow> register_request" where
  "to_internal_value data =
     \<lparr>req_username = strip (req_username data), req_email = strip (req_email data),
      req_password = strip (req_password data), req_password2 = strip (req_password2 data),
      req_first_name = strip (req_first_name data), req_last_name = strip (req_last_name data)\<rparr>"

text \<open>
  \<^verbatim>\<open>
  def create(self, request, *args, **kwargs):
      serializer = self.get_serializer(data=request.data)
      serializer.is_valid(raise_exception=True)
      user = serializer.save()
      try:
          default_role = Role.objects.get(id=2)
          user.profile.add_role(default_role)
      except Role.DoesNotExist:
          pass  # Skip if missing
      ...
  \<close>
  \<open>is_valid\<close> cleans the fields, then runs the validators the framework attaches to them
  (required, not blank, format, uniqueness of the username, password strength) on the
  cleaned values; those validators are the parameter \<open>fv\<close>, which returns the field errors
  it finds. Only when there are none does it call \<open>validate\<close>, and \<open>save\<close> stores the
  cleaned values. The profile of the new user is the one the signal has just created, so
  \<open>user.profile\<close> cannot fail here. Only \<open>Role.DoesNotExist\<close> is caught: any other
  exception leaves the handler, with the user already stored.
\<close>

definition RegisterView_create ::
  "(db \<Rightarrow> register_request \<Rightarrow> (string \<times> detail) list) \<Rightarrow> db \<Rightarrow> register_request \<Rightarrow> time
     \<Rightarrow> (error + register_response) \<times> db" where
  "RegisterView_create fv d request now =
     (let data = to_internal_value request
      in if fv d data \<noteq> [] then (Inl (ValidationError (fv d data)), d)
         else
           (case RegisterSerializer_validate d data of
              Inl e \<Rightarrow> (Inl e, d)
            | Inr attrs \<Rightarrow>
                (let (u, d1) = RegisterSerializer_create d attrs
                 in (case Role_get d1 2 of
                       Inl DoesNotExist \<Rightarrow> issue_response d1 u now
                     | Inl e \<Rightarrow> (Inl e, d1)
                     | Inr default_role \<Rightarrow>
                         (case add_role d1 (user_id u) default_role None None now now of
                            (Inl e, d2) \<Rightarrow> (Inl e, d2)
                          | (Inr ur, d2) \<Rightarrow> issue_response d2 u now)))))"

section \<open>Login (accounts/views.py)\<close>

text \<open>\<^verbatim>\<open>User.objects.get(email=...)\<close>.\<close>

definition User_get_by_email :: "db \<Rightarrow> string \<Rightarrow> error + user" where
  "User_get_by_email d e = queryset_get (filter (\<lambda>u. user_email u = e) (users d))"

text \<open>
  \<^verbatim>\<open>
  def validate(self, attrs):
      credentials = {"username": attrs.get("username"), "password": attrs.get("password")}
      if credentials["username"] and "@" in credentials["username"]:
          try:
              user = User.objects.get(email=credentials["username"])
              credentials["username"] = user.username
          except User.DoesNotExist:
              pass
      return super().validate(credentials)
  \<close>
  \<open>super().validate\<close> is the token library's credential check; it is the parameter
  \<open>super_validate\<close>. Only \<open>User.DoesNotExist\<close> is caught.
\<close>

definition CustomTokenObtainPairSerializer_validate ::
  "(db \<Rightarrow> string \<times> string \<Rightarrow> (error + 'a) \<times> db) \<Rightarrow> db \<Rightarrow> string \<times> string \<Rightarrow> (error + 'a) \<times> db" where
  "CustomTokenObtainPairSerializer_validate super_validate d attrs =
     (let (username, password) = attrs
      in if username \<noteq> [] \<and> CHR ''@'' \<in> set username
         then (case User_get_by_email d username of
                 Inr u \<Rightarrow> super_validate d (user_username u, password)
               | Inl DoesNotExist \<Rightarrow> super_validate d (username, password)
               | Inl e \<Rightarrow> (Inl e, d))
         else super_validate d (username, password))"

text \<open>
  \<^verbatim>\<open>
  @classmethod
  def get_token(cls, user):
      token = super().get_token(user)
      token["username"] = user.username
      token["email"] = user.email
      token["roles"] = [r.slug for r in user.profile.get_active_roles()]
      return token
  \<close>
  \<open>super().get_token\<close> is \<open>RefreshToken.for_user\<close>. Here the user comes from the
  database, so \<open>user.profile\<close> is a lookup, which fails when the user has no profile.
\<close>

definition get_token :: "db \<Rightarrow> user \<Rightarrow> time \<Rightarrow> (error + token) \<times> db" where
  "get_token d u now =
     (let (t, d1) = RefreshToken_for_user d u now
      in (case queryset_get (filter (\<lambda>p. profile_user p = user_id u) (profiles d1)) of
            Inl e \<Rightarrow> (Inl e, d1)
          | Inr p \<Rightarrow>
              (Inr (t\<lparr>tok_claims := Some \<lparr>snap_username = user_username u, snap_email = user_email u,
                                         snap_roles = map role_slug (get_active_roles d1 (profile_user p))\<rparr>\<rparr>),
               d1)))"

text \<open>
  Modelled from the spec: the credential check of the token library
  (\<open>TokenObtainPairSerializer.validate\<close> over \<open>django.contrib.auth.authenticate\<close>) is not
  among the sources. The spec has login verify the credential of the named user and, on
  success, issue a token pair with the snapshot; on failure it gives one generic
  authentication failure. An inactive user cannot authenticate.
\<close>

definition authenticate :: "db \<Rightarrow> string \<Rightarrow> string \<Rightarrow> user option" where
  "authenticate d username password =
     (case filter (\<lambda>u. user_username u = username) (users d) of
        [] \<Rightarrow> None
      | u # _ \<Rightarrow> if user_password u = password \<and> user_is_active u then Some u else None)"

definition TokenObtainPairSerializer_validate ::
  "time \<Rightarrow> db \<Rightarrow> string \<times> string \<Rightarrow> (error + token \<times> token) \<times> db" where
  "TokenObtainPairSerializer_validate now d credentials =
     (case authenticate d (fst credentials) (snd credentials) of
        None \<Rightarrow> (Inl AuthenticationFailed, d)
      | Some u \<Rightarrow>
          (case get_token d u now of
             (Inl e, d1) \<Rightarrow> (Inl e, d1)
           | (Inr refresh, d1) \<Rightarrow>
               (let (access, d2) = access_token d1 refresh now
                in (Inr (refresh, access), d2))))"

section \<open>Token refresh\<close>

text \<open>
  Modelled from the spec: \<open>RefreshTokenView\<close> only subclasses the library's
  \<open>TokenRefreshView\<close>, whose serializer is not among the sources. The spec: exchange a
  valid, non-blacklisted refresh token for a new access token; each refresh invalidates
  the old refresh token and issues a new one, tracked in a blacklist store; an
  invalid, expired or blacklisted token fails with the invalid-token error. The two
  switches are the ones of \<open>SIMPLE_JWT\<close> above.
\<close>

definition refresh_token_ok :: "db \<Rightarrow> token \<Rightarrow> time \<Rightarrow> bool" where
  "refresh_token_ok d t now =
     (tok_type t = Refresh \<and> now < tok_exp t \<and> tok_jti t \<notin> set (blacklisted d))"

definition TokenRefreshView_post :: "db \<Rightarrow> token \<Rightarrow> time \<Rightarrow> (error + token \<times> token option) \<times> db" where
  "TokenRefreshView_post d t now =
     (if \<not> refresh_token_ok d t now then (Inl InvalidToken, d)
      else
        (let (access, d1) = access_token d t now
         in if ROTATE_REFRESH_TOKENS
            then
              (let d2 = (if BLACKLIST_AFTER_ROTATION
                         then d1\<lparr>blacklisted := blacklisted d1 @ [tok_jti t]\<rparr> else d1);
                   t' = t\<lparr>tok_jti := jti_seq d2, tok_exp := now + REFRESH_TOKEN_LIFETIME\<rparr>
               in (Inr (access, Some t'),
                   d2\<lparr>outstanding := outstanding d2 @ [t'], jti_seq := Suc (jti_seq d2)\<rparr>))
            else (Inr (access, None), d1)))"

section \<open>The storage layer's constraints on the through table\<close>

text \<open>
  \<^verbatim>\<open>unique_together = ("user", "role")\<close> of \<open>UserRole.Meta\<close>, and what the storage layer
  guarantees of primary keys: they are unique, and the sequence is ahead of every key in
  use.
\<close>

definition pair_of :: "userrole \<Rightarrow> nat \<times> nat" where
  "pair_of m = (ur_user m, ur_role m)"

definition ledger_wf :: "db \<Rightarrow> bool" where
  "ledger_wf d =
     (distinct (map pair_of (userroles d)) \<and> distinct (map ur_id (userroles d))
      \<and> list_all (\<lambda>m. ur_id m < userrole_seq d) (userroles d))"

section \<open>Shorthands for the effect of one call on one row\<close>

text \<open>What \<open>UserRole_save\<close> does to a stored row \<open>r\<close> when it writes \<open>m'\<close>.\<close>

definition overwrite :: "userrole \<Rightarrow> userrole \<Rightarrow> userrole" where
  "overwrite m' r = (if ur_id r = ur_id m' then m' else r)"

text \<open>What the \<open>not created\<close> branch of \<open>add_role\<close> makes of the row it found.\<close>

definition reactivated :: "userrole \<Rightarrow> nat option \<Rightarrow> string option \<Rightarrow> time \<Rightarrow> userrole" where
  "reactivated m ab n now1 =
     m\<lparr>ur_is_active := True,
       ur_assigned_by := (case ab of Some a \<Rightarrow> Some a | None \<Rightarrow> ur_assigned_by m),
       ur_note := (if note_truthy n then n else ur_note m),
       ur_assigned_at := now1\<rparr>"

text \<open>What the update of \<open>remove_role\<close> makes of a row.\<close>

definition revoked :: "nat \<Rightarrow> role \<Rightarrow> time \<Rightarrow> userrole \<Rightarrow> userrole" where
  "revoked u r now m =
     (if ur_user m = u \<and> refers_to m r \<and> ur_is_active m
      then m\<lparr>ur_is_active := False, ur_revoked_at := Some now\<rparr> else m)"

text \<open>The user row that \<open>RegisterSerializer_create\<close> stores, and the state it leaves.\<close>

definition new_user :: "db \<Rightarrow> register_request \<Rightarrow> user" where
  "new_user d request =
     \<lparr>user_id = user_seq d, user_username = req_username request, user_email = req_email request,
      user_password = req_password request, user_first_name = req_first_name request,
      user_last_name = req_last_name request, user_is_active = True\<rparr>"

definition with_new_user :: "db \<Rightarrow> register_request \<Rightarrow> db" where
  "with_new_user d request =
     d\<lparr>users := users d @ [new_user d request],
       profiles := profiles d @ [\<lparr>profile_user = user_seq d, profile_phone = None, profile_bio = None\<rparr>],
       user_seq := Suc (user_seq d)\<rparr>"

section \<open>Example states\<close>

definition member_role :: role where
  "member_role = \<lparr>role_pk = Some 2, role_name = ''Member'', role_slug = ''member'',
                   role_description = None, role_is_active = True\<rparr>"

definition alice :: user where
  "alice = \<lparr>user_id = 1, user_username = ''alice'', user_email = ''alice@example.com'',
            user_password = ''s3cret-pass'', user_first_name = ''Alice'', user_last_name = ''A'',
            user_is_active = True\<rparr>"

definition db_base :: db where
  "db_base = \<lparr>users = [alice],
              profiles = [\<lparr>profile_user = 1, profile_phone = None, profile_bio = None\<rparr>],
              roles = [member_role], userroles = [], outstanding = [], blacklisted = [],
              user_seq = 2, userrole_seq = 1, jti_seq = 1\<rparr>"

text \<open>The same state with the default role soft-disabled, and with no role at all.\<close>

definition db_role_disabled :: db where
  "db_role_disabled = db_base\<lparr>roles := [member_role\<lparr>role_is_active := False\<rparr>]\<rparr>"

definition db_no_roles :: db where
  "db_no_roles = db_base\<lparr>roles := []\<rparr>"

text \<open>Alice has been given the member role at time 10, and it was revoked at time 20.\<close>

definition db_assigned :: db where
  "db_assigned = snd (add_role db_base 1 member_role None None 10 10)"

definition db_revoked :: db where
  "db_revoked = remove_role db_assigned 1 member_role 20"

text \<open>
  Two users; the username of the first is the email address of the second.
\<close>

definition bob :: user where
  "bob = \<lparr>user_id = 1, user_username = ''bob@x.org'', user_email = ''robert@y.org'',
          user_password = ''pw-of-bob'', user_first_name = [], user_last_name = [],
          user_is_active = True\<rparr>"

definition carol :: user where
  "carol = \<lparr>user_id = 2, user_username = ''carol'', user_email = ''bob@x.org'',
            user_password = ''pw-of-carol'', user_first_name = [], user_last_name = [],
            user_is_active = True\<rparr>"

definition db_clash :: db where
  "db_clash = \<lparr>users = [bob, carol],
               profiles = [\<lparr>profile_user = 1, profile_phone = None, profile_bio = None\<rparr>,
                           \<lparr>profile_user = 2, profile_phone = None, profile_bio = None\<rparr>],
               roles = [], userroles = [], outstanding = [], blacklisted = [],
               user_seq = 3, userrole_seq = 1, jti_seq = 1\<rparr>"

text \<open>Two users registered under one email address (the user model does not forbid it).\<close>

definition db_shared_email :: db where
  "db_shared_email = db_clash\<lparr>users := [bob, carol\<lparr>user_email := ''robert@y.org''\<rparr>]\<rparr>"

text \<open>A registration request, and field validators that accept everything.\<close>

definition dave_request :: register_request where
  "dave_request = \<lparr>req_username = ''dave'', req_email = ''dave@example.com'',
                   req_password = ''correct-horse'', req_password2 = ''correct-horse'',
                   req_first_name = ''Dave'', req_last_name = ''D''\<rparr>"

definition fields_ok :: "db \<Rightarrow> register_request \<Rightarrow> (string \<times> detail) list" where
  "fields_ok d request = []"

text \<open>
  A state without the default role: the only role has key 3, and Alice holds it.
\<close>

definition editor_role :: role where
  "editor_role = \<lparr>role_pk = Some 3, role_name = ''Content Editor'', role_slug = ''content-editor'',
                   role_description = None, role_is_active = True\<rparr>"

definition db_editor :: db where
  "db_editor = db_base\<lparr>roles := [editor_role],
                 userroles := [\<lparr>ur_id = 1, ur_user = 1, ur_role = 3, ur_is_active = True,
                                ur_assigned_at = 5, ur_revoked_at = None, ur_assigned_by = None,
                                ur_note = None\<rparr>],
                 userrole_seq := 2\<rparr>"

text \<open>Bob alone: his username contains \<open>@\<close> and is nobody's email address.\<close>

definition db_bob :: db where
  "db_bob = db_clash\<lparr>users := [bob]\<rparr>"

text \<open>A user whose stored address has no \<open>@\<close> (written through the model layer).\<close>

definition db_plain :: db where
  "db_plain = db_base\<lparr>users := [alice\<lparr>user_email := ''alice.example.com''\<rparr>]\<rparr>"

text \<open>A refresh token issued to Alice at time 0, and the state after issuing it.\<close>

definition alice_refresh :: token where
  "alice_refresh = fst (RefreshToken_for_user db_base alice 0)"

definition db_logged_in :: db where
  "db_logged_in = snd (RefreshToken_for_user db_base alice 0)"

section \<open>The through table keeps one row per pair\<close>

lemma filter_key_le1: "distinct (map f xs) \<Longrightarrow> length (filter (\<lambda>x. f x = k) xs) \<le> Suc 0"
proof (induction xs)
  case Nil
  then show ?case by simp
next
  case (Cons a xs)
  show ?case
  proof (cases "f a = k")
    case True
    with Cons.prems have "\<forall>x \<in> set xs. f x \<noteq> k" by (auto simp: image_iff)
    then have "filter (\<lambda>x. f x = k) xs = []" by (simp add: filter_empty_conv)
    with True show ?thesis by simp
  next
    case False
    with Cons show ?thesis by simp
  qed
qed

lemma pair_rows_key: "pair_rows d u rid = filter (\<lambda>m. pair_of m = (u, rid)) (userroles d)"
  by (simp add: pair_rows_def pair_of_def)

lemma pair_rows_at_most_one:
  assumes "ledger_wf d"
  shows "length (pair_rows d u rid) \<le> Suc 0"
  using assms unfolding pair_rows_key ledger_wf_def by (intro filter_key_le1) simp

lemma pair_rows_cases:
  assumes "ledger_wf d"
  shows "pair_rows d u rid = [] \<or> (\<exists>m. pair_rows d u rid = [m])"
  using pair_rows_at_most_one [OF assms, of u rid] by (cases "pair_rows d u rid") auto

lemma pair_rows_single:
  assumes "pair_rows d u rid = [m]"
  shows "m \<in> set (userroles d) \<and> ur_user m = u \<and> ur_role m = rid"
proof -
  have "m \<in> set (pair_rows d u rid)" using assms by simp
  then show ?thesis by (simp add: pair_rows_def)
qed

lemma UserRole_save_overwrite: "userroles (UserRole_save d m') = map (overwrite m') (userroles d)"
  by (simp add: UserRole_save_def overwrite_def)

lemma overwrite_same:
  assumes "distinct (map ur_id xs)" "m \<in> set xs" "ur_id m' = ur_id m" "pair_of m' = pair_of m" "r \<in> set xs"
  shows "ur_id (overwrite m' r) = ur_id r \<and> pair_of (overwrite m' r) = pair_of r"
proof (cases "ur_id r = ur_id m'")
  case True
  with assms have "r = m" by (metis distinct_map inj_onD)
  with True assms show ?thesis by (simp add: overwrite_def)
next
  case False
  then show ?thesis by (simp add: overwrite_def)
qed

lemma save_keeps_keys:
  assumes "distinct (map ur_id (userroles d))" "m \<in> set (userroles d)"
    "ur_id m' = ur_id m" "pair_of m' = pair_of m"
  shows "map ur_id (userroles (UserRole_save d m')) = map ur_id (userroles d)"
    and "map pair_of (userroles (UserRole_save d m')) = map pair_of (userroles d)"
  using overwrite_same [OF assms] by (simp_all add: UserRole_save_overwrite)

lemma save_pair_rows:
  assumes "distinct (map ur_id (userroles d))" "pair_rows d u rid = [m]"
    "ur_id m' = ur_id m" "pair_of m' = pair_of m"
  shows "pair_rows (UserRole_save d m') u rid = [m']"
proof -
  have m_in: "m \<in> set (userroles d)"
    using pair_rows_single [OF assms(2)] by simp
  have same: "\<forall>r \<in> set (userroles d). pair_of (overwrite m' r) = pair_of r"
    using overwrite_same [OF assms(1) m_in assms(3,4)] by blast
  have "pair_rows (UserRole_save d m') u rid
        = map (overwrite m') (filter (\<lambda>r. pair_of (overwrite m' r) = (u, rid)) (userroles d))"
    by (simp add: pair_rows_key UserRole_save_overwrite filter_map comp_def)
  also have "filter (\<lambda>r. pair_of (overwrite m' r) = (u, rid)) (userroles d)
             = filter (\<lambda>r. pair_of r = (u, rid)) (userroles d)"
    using same by (intro filter_cong) auto
  also have "\<dots> = [m]" using assms(2) by (simp add: pair_rows_key)
  finally show ?thesis using assms(3) by (simp add: overwrite_def)
qed


lemma add_role_new:
  assumes "role_pk r = Some rid" "rid \<noteq> 0" "role_is_active r" "pair_rows d u rid = []"
  shows "add_role d u r ab n ta tb =
           (Inr \<lparr>ur_id = userrole_seq d, ur_user = u, ur_role = rid, ur_is_active = True,
                  ur_assigned_at = ta, ur_revoked_at = None, ur_assigned_by = ab, ur_note = n\<rparr>,
            d\<lparr>userroles := userroles d @
                   [\<lparr>ur_id = userrole_seq d, ur_user = u, ur_role = rid, ur_is_active = True,
                     ur_assigned_at = ta, ur_revoked_at = None, ur_assigned_by = ab, ur_note = n\<rparr>],
              userrole_seq := Suc (userrole_seq d)\<rparr>)"
  using assms by (simp add: add_role_def pk_truthy_def UserRole_get_or_create_def Let_def)

lemma add_role_existing:
  assumes "role_pk r = Some rid" "rid \<noteq> 0" "role_is_active r" "pair_rows d u rid = [m]"
  shows "add_role d u r ab n ta tb = (Inr (reactivated m ab n tb), UserRole_save d (reactivated m ab n tb))"
  using assms by (simp add: add_role_def pk_truthy_def UserRole_get_or_create_def reactivated_def Let_def split: option.split)


lemma reactivated_keys: "ur_id (reactivated m ab n tb) = ur_id m" "pair_of (reactivated m ab n tb) = pair_of m"
  "ur_is_active (reactivated m ab n tb)"
  by (simp_all add: reactivated_def pair_of_def)

lemma add_role_new_wf:
  assumes "ledger_wf d" "pair_rows d u rid = []"
  shows "ledger_wf (d\<lparr>userroles := userroles d @ [\<lparr>ur_id = userrole_seq d, ur_user = u, ur_role = rid, ur_is_active = a,
                     ur_assigned_at = ta, ur_revoked_at = rv, ur_assigned_by = ab, ur_note = n\<rparr>],
              userrole_seq := Suc (userrole_seq d)\<rparr>)"
proof -
  have "\<forall>m \<in> set (userroles d). pair_of m \<noteq> (u, rid)"
    using assms(2) by (simp add: pair_rows_key filter_empty_conv)
  moreover have "\<forall>m \<in> set (userroles d). ur_id m < userrole_seq d"
    using assms(1) by (simp add: ledger_wf_def list_all_iff)
  ultimately show ?thesis
    using assms(1) by (auto simp: ledger_wf_def list_all_iff pair_of_def image_iff less_Suc_eq)
qed

lemma save_wf:
  assumes "ledger_wf d" "m \<in> set (userroles d)" "ur_id m' = ur_id m" "pair_of m' = pair_of m"
  shows "ledger_wf (UserRole_save d m')"
proof -
  have ids: "distinct (map ur_id (userroles d))" using assms(1) by (simp add: ledger_wf_def)
  have seq: "userrole_seq (UserRole_save d m') = userrole_seq d" by (simp add: UserRole_save_def)
  have "\<forall>r \<in> set (userroles d). ur_id (overwrite m' r) < userrole_seq d"
    using overwrite_same [OF ids assms(2,3,4)] assms(1) by (simp add: ledger_wf_def list_all_iff)
  then have "list_all (\<lambda>r. ur_id r < userrole_seq d) (userroles (UserRole_save d m'))"
    by (simp add: UserRole_save_overwrite list_all_iff)
  then show ?thesis
    using assms(1) save_keeps_keys [OF ids assms(2,3,4)] seq by (simp add: ledger_wf_def)
qed

lemma add_role_wf:
  assumes "ledger_wf d"
  shows "ledger_wf (snd (add_role d u r ab n ta tb))"
proof (cases "pk_truthy (role_pk r) \<and> role_is_active r")
  case False
  then show ?thesis using assms by (auto simp: add_role_def)
next
  case True
  then obtain rid where rid: "role_pk r = Some rid" "rid \<noteq> 0" "role_is_active r"
    by (auto simp: pk_truthy_def split: option.splits)
  from pair_rows_cases [OF assms, of u rid] show ?thesis
  proof
    assume e: "pair_rows d u rid = []"
    show ?thesis using add_role_new_wf [OF assms e] by (simp add: add_role_new [OF rid e])
  next
    assume "\<exists>m. pair_rows d u rid = [m]"
    then obtain m where m: "pair_rows d u rid = [m]" ..
    have "m \<in> set (userroles d)" using pair_rows_single [OF m] by simp
    then show ?thesis
      using save_wf [OF assms _ reactivated_keys(1,2)] by (simp add: add_role_existing [OF rid m])
  qed
qed

lemma remove_role_map: "userroles (remove_role d u r now) = map (revoked u r now) (userroles d)"
  by (simp add: remove_role_def revoked_def)

lemma revoked_keys: "ur_id (revoked u r now m) = ur_id m" "pair_of (revoked u r now m) = pair_of m"
  by (simp_all add: revoked_def pair_of_def)

lemma remove_role_wf:
  assumes "ledger_wf d"
  shows "ledger_wf (remove_role d u r now)"
proof -
  have "userrole_seq (remove_role d u r now) = userrole_seq d" by (simp add: remove_role_def)
  then show ?thesis
    using assms by (simp add: ledger_wf_def remove_role_map comp_def revoked_keys list_all_iff)
qed

lemma remove_role_pair_rows:
  "pair_rows (remove_role d u r now) u' rid = map (revoked u r now) (pair_rows d u' rid)"
  by (simp add: pair_rows_key remove_role_map filter_map comp_def revoked_keys)


lemma add_role_ok:
  assumes "ledger_wf d" "role_pk r = Some rid" "rid \<noteq> 0" "role_is_active r"
  obtains m1 d1 where "add_role d u r ab n ta tb = (Inr m1, d1)" "pair_rows d1 u rid = [m1]"
    "ur_is_active m1" "ledger_wf d1"
    "\<forall>m. pair_rows d u rid = [m] \<longrightarrow> ur_id m1 = ur_id m \<and> length (userroles d1) = length (userroles d)"
proof -
  note rid = assms(2,3,4)
  from pair_rows_cases [OF assms(1), of u rid] show thesis
  proof
    assume e: "pair_rows d u rid = []"
    let ?m = "\<lparr>ur_id = userrole_seq d, ur_user = u, ur_role = rid, ur_is_active = True,
               ur_assigned_at = ta, ur_revoked_at = None, ur_assigned_by = ab, ur_note = n\<rparr>"
    let ?d = "d\<lparr>userroles := userroles d @ [?m], userrole_seq := Suc (userrole_seq d)\<rparr>"
    have "add_role d u r ab n ta tb = (Inr ?m, ?d)" by (rule add_role_new [OF rid e])
    moreover have "pair_rows ?d u rid = [?m]" using e by (simp add: pair_rows_def)
    moreover have "ledger_wf ?d" by (rule add_role_new_wf [OF assms(1) e])
    ultimately show thesis using e by (intro that [of ?m ?d]) simp_all
  next
    assume "\<exists>m. pair_rows d u rid = [m]"
    then obtain m where m: "pair_rows d u rid = [m]" ..
    let ?m = "reactivated m ab n tb"
    have m_in: "m \<in> set (userroles d)" using pair_rows_single [OF m] by simp
    have ids: "distinct (map ur_id (userroles d))" using assms(1) by (simp add: ledger_wf_def)
    have "add_role d u r ab n ta tb = (Inr ?m, UserRole_save d ?m)" by (rule add_role_existing [OF rid m])
    moreover have "pair_rows (UserRole_save d ?m) u rid = [?m]"
      by (rule save_pair_rows [OF ids m reactivated_keys(1,2)])
    moreover have "ledger_wf (UserRole_save d ?m)"
      by (rule save_wf [OF assms(1) m_in reactivated_keys(1,2)])
    moreover have "length (userroles (UserRole_save d ?m)) = length (userroles d)"
      by (simp add: UserRole_save_overwrite)
    ultimately show thesis
      using m by (intro that [of ?m "UserRole_save d ?m"]) (simp_all add: reactivated_keys)
  qed
qed

text \<open>
  Claim C2. On a through table that meets the storage constraints, and for a saved, active
  role: two assignments in a row both succeed and leave exactly one row for the pair, which
  is active and is the row of the first call; assign, revoke, assign ends with the row of
  the first call again (same key), the table no longer than before. No call of \<open>add_role\<close>
  or \<open>remove_role\<close> breaks the constraints, under which a pair never has two rows.
\<close>

theorem one_row_per_pair:
  assumes "ledger_wf d" "role_pk r = Some rid" "rid \<noteq> 0" "role_is_active r"
  shows "(\<exists>m1 d1 m2 d2.
            add_role d u r ab n ta tb = (Inr m1, d1) \<and> add_role d1 u r ab' n' tc td = (Inr m2, d2)
            \<and> pair_rows d2 u rid = [m2] \<and> ur_is_active m2 \<and> ur_id m2 = ur_id m1 \<and> ledger_wf d2)
       \<and> (\<exists>m1 d1 m3 d3.
            add_role d u r ab n ta tb = (Inr m1, d1)
            \<and> add_role (remove_role d1 u r t) u r ab' n' tc td = (Inr m3, d3)
            \<and> ur_id m3 = ur_id m1 \<and> pair_rows d3 u rid = [m3] \<and> ur_is_active m3
            \<and> length (userroles d3) = length (userroles d1) \<and> ledger_wf d3)
       \<and> (\<forall>u' r' ab n ta tb t rid'.
            ledger_wf (snd (add_role d u' r' ab n ta tb)) \<and> ledger_wf (remove_role d u' r' t)
            \<and> length (pair_rows d u' rid') \<le> 1)"
proof (intro conjI allI)
  note rid = assms(2,3,4)
  obtain m1 d1 where 1: "add_role d u r ab n ta tb = (Inr m1, d1)" "pair_rows d1 u rid = [m1]"
    "ledger_wf d1"
    by (rule add_role_ok [OF assms, of u ab n ta tb])
  obtain m2 d2 where 2: "add_role d1 u r ab' n' tc td = (Inr m2, d2)" "pair_rows d2 u rid = [m2]"
    "ur_is_active m2" "ledger_wf d2"
    "\<forall>m. pair_rows d1 u rid = [m] \<longrightarrow> ur_id m2 = ur_id m \<and> length (userroles d2) = length (userroles d1)"
    by (rule add_role_ok [OF 1(3) rid, of u ab' n' tc td])
  show "\<exists>m1 d1 m2 d2.
            add_role d u r ab n ta tb = (Inr m1, d1) \<and> add_role d1 u r ab' n' tc td = (Inr m2, d2)
            \<and> pair_rows d2 u rid = [m2] \<and> ur_is_active m2 \<and> ur_id m2 = ur_id m1 \<and> ledger_wf d2"
    using 1 2 by auto
  let ?d = "remove_role d1 u r t"
  have wf: "ledger_wf ?d" by (rule remove_role_wf [OF 1(3)])
  have rows: "pair_rows ?d u rid = [revoked u r t m1]"
    by (simp add: remove_role_pair_rows 1(2))
  obtain m3 d3 where 3: "add_role ?d u r ab' n' tc td = (Inr m3, d3)" "pair_rows d3 u rid = [m3]"
    "ur_is_active m3" "ledger_wf d3"
    "\<forall>m. pair_rows ?d u rid = [m] \<longrightarrow> ur_id m3 = ur_id m \<and> length (userroles d3) = length (userroles ?d)"
    by (rule add_role_ok [OF wf rid, of u ab' n' tc td])
  have "ur_id m3 = ur_id m1" "length (userroles d3) = length (userroles d1)"
    using 3(5) rows by (simp_all add: revoked_keys remove_role_map)
  then show "\<exists>m1 d1 m3 d3.
            add_role d u r ab n ta tb = (Inr m1, d1)
            \<and> add_role (remove_role d1 u r t) u r ab' n' tc td = (Inr m3, d3)
            \<and> ur_id m3 = ur_id m1 \<and> pair_rows d3 u rid = [m3] \<and> ur_is_active m3
            \<and> length (userroles d3) = length (userroles d1) \<and> ledger_wf d3"
    using 1 3 by auto
next
  fix u' r' ab n ta tb
  show "ledger_wf (snd (add_role d u' r' ab n ta tb))" by (rule add_role_wf [OF assms(1)])
next
  fix u' r' t
  show "ledger_wf (remove_role d u' r' t)" by (rule remove_role_wf [OF assms(1)])
next
  fix u' rid'
  show "length (pair_rows d u' rid') \<le> 1" using pair_rows_at_most_one [OF assms(1)] by simp
qed

theorem one_row_per_pair_witness:
  "ledger_wf db_base \<and> role_pk member_role = Some 2 \<and> role_is_active member_role
   \<and> (\<exists>m1 d1 m2 d2.
          add_role db_base 1 member_role None None 10 10 = (Inr m1, d1)
          \<and> add_role d1 1 member_role (Some 1) (Some ''again'') 30 30 = (Inr m2, d2)
          \<and> pair_rows d2 1 2 = [m2] \<and> ur_is_active m2 \<and> ur_id m2 = ur_id m1 \<and> ledger_wf d2)
   \<and> (\<exists>m1 d1 m3 d3.
          add_role db_base 1 member_role None None 10 10 = (Inr m1, d1)
          \<and> add_role (remove_role d1 1 member_role 20) 1 member_role (Some 1) (Some ''again'') 30 30
              = (Inr m3, d3)
          \<and> ur_id m3 = ur_id m1 \<and> pair_rows d3 1 2 = [m3] \<and> ur_is_active m3
          \<and> length (userroles d3) = length (userroles d1) \<and> ledger_wf d3)"
proof -
  have wf: "ledger_wf db_base" by (simp add: ledger_wf_def db_base_def)
  have r: "role_pk member_role = Some 2" "(2::nat) \<noteq> 0" "role_is_active member_role"
    by (simp_all add: member_role_def)
  show ?thesis
    using wf r one_row_per_pair [OF wf r, where u = 1 and ab = None and n = None and ta = 10 and tb = 10
        and ab' = "Some 1" and n' = "Some ''again''" and tc = 30 and td = 30 and t = 20]
    by blast
qed

section \<open>Role checks, rejection and revocation\<close>

text \<open>
  Claim C3. \<open>has_role\<close> holds exactly when the through table has a row of the user that is
  active and refers to a role of the given slug that is itself active; so it is false as
  soon as every role of that slug is soft-disabled, whatever the rows say.
\<close>

theorem has_role_iff:
  "(has_role d u s \<longleftrightarrow>
      (\<exists>m \<in> set (userroles d). \<exists>r \<in> set (roles d).
          ur_user m = u \<and> role_pk r = Some (ur_role m) \<and> role_slug r = s
          \<and> ur_is_active m \<and> role_is_active r))
   \<and> ((\<forall>r \<in> set (roles d). role_slug r = s \<longrightarrow> \<not> role_is_active r) \<longrightarrow> \<not> has_role d u s)"
  by (auto simp: has_role_def filter_empty_conv list_ex_iff refers_to_def)

theorem has_role_iff_witness:
  "has_role db_assigned 1 ''member''
   \<and> ur_is_active (hd (userroles (db_assigned\<lparr>roles := roles db_role_disabled\<rparr>)))
   \<and> \<not> has_role (db_assigned\<lparr>roles := roles db_role_disabled\<rparr>) 1 ''member''"
proof -
  have d: "db_assigned = db_base\<lparr>userroles :=
             [\<lparr>ur_id = 1, ur_user = 1, ur_role = 2, ur_is_active = True, ur_assigned_at = 10,
               ur_revoked_at = None, ur_assigned_by = None, ur_note = None\<rparr>],
             userrole_seq := 2\<rparr>"
    by (simp add: db_assigned_def add_role_def db_base_def member_role_def pk_truthy_def
        UserRole_get_or_create_def pair_rows_def Let_def)
  have "\<exists>m \<in> set (userroles db_assigned). \<exists>r \<in> set (roles db_assigned).
          ur_user m = 1 \<and> role_pk r = Some (ur_role m) \<and> role_slug r = ''member''
          \<and> ur_is_active m \<and> role_is_active r"
    by (simp add: d db_base_def member_role_def)
  moreover have "\<forall>r \<in> set (roles (db_assigned\<lparr>roles := roles db_role_disabled\<rparr>)).
          role_slug r = ''member'' \<longrightarrow> \<not> role_is_active r"
    by (simp add: db_role_disabled_def)
  moreover have "ur_is_active (hd (userroles (db_assigned\<lparr>roles := roles db_role_disabled\<rparr>)))"
    by (simp add: d)
  ultimately show ?thesis
    using has_role_iff [of db_assigned 1 "''member''"]
      has_role_iff [of "db_assigned\<lparr>roles := roles db_role_disabled\<rparr>" 1 "''member''"]
    by blast
qed

text \<open>
  Claim C7. \<open>add_role\<close> with a role that has no primary key, or with an inactive role, ends
  in one of its two \<open>ValueError\<close>s and leaves the stored state as it was.
\<close>

theorem add_role_rejects_unassignable:
  "role_pk r = None \<or> \<not> role_is_active r \<Longrightarrow>
     (fst (add_role d u r ab n ta tb)
        = Inl (ValueError ''role must be saved (have a primary key) before assigning'')
      \<or> fst (add_role d u r ab n ta tb) = Inl (ValueError ''cannot assign an inactive Role''))
     \<and> snd (add_role d u r ab n ta tb) = d"
  by (auto simp: add_role_def pk_truthy_def)

theorem add_role_rejects_unassignable_witness:
  "\<not> role_is_active (member_role\<lparr>role_is_active := False\<rparr>)
   \<and> fst (add_role db_assigned 1 (member_role\<lparr>role_is_active := False\<rparr>) None None 30 30)
       = Inl (ValueError ''cannot assign an inactive Role'')
   \<and> snd (add_role db_assigned 1 (member_role\<lparr>role_is_active := False\<rparr>) None None 30 30) = db_assigned
   \<and> role_pk (member_role\<lparr>role_pk := None\<rparr>) = None
   \<and> fst (add_role db_assigned 1 (member_role\<lparr>role_pk := None\<rparr>) None None 30 30)
       = Inl (ValueError ''role must be saved (have a primary key) before assigning'')
   \<and> snd (add_role db_assigned 1 (member_role\<lparr>role_pk := None\<rparr>) None None 30 30) = db_assigned"
proof -
  have a: "\<not> role_is_active (member_role\<lparr>role_is_active := False\<rparr>)" by simp
  have b: "role_pk (member_role\<lparr>role_pk := None\<rparr>) = None" by simp
  have "fst (add_role db_assigned 1 (member_role\<lparr>role_is_active := False\<rparr>) None None 30 30)
          \<noteq> Inl (ValueError ''role must be saved (have a primary key) before assigning'')"
    by (simp add: add_role_def pk_truthy_def member_role_def)
  moreover have "fst (add_role db_assigned 1 (member_role\<lparr>role_pk := None\<rparr>) None None 30 30)
          \<noteq> Inl (ValueError ''cannot assign an inactive Role'')"
    by (simp add: add_role_def pk_truthy_def member_role_def)
  ultimately show ?thesis
    using a b
      add_role_rejects_unassignable [of "member_role\<lparr>role_is_active := False\<rparr>" db_assigned 1 None None 30 30]
      add_role_rejects_unassignable [of "member_role\<lparr>role_pk := None\<rparr>" db_assigned 1 None None 30 30]
    by blast
qed

lemma remove_role_noop:
  assumes "\<forall>m \<in> set (userroles d). \<not> (ur_user m = u \<and> role_pk r = Some (ur_role m) \<and> ur_is_active m)"
  shows "remove_role d u r now = d"
proof -
  have "map (revoked u r now) (userroles d) = userroles d"
    using assms by (intro map_idI) (auto simp: revoked_def refers_to_def)
  then have "userroles (remove_role d u r now) = userroles d" by (simp add: remove_role_map)
  then show ?thesis by (simp add: remove_role_def)
qed

text \<open>
  Claim C8. \<open>remove_role\<close> keeps the table's length and order; a row of the user and the role
  that is active becomes inactive with \<open>revoked_at\<close> the current time, its other fields
  untouched; every other row stays as it is; and when no row of the pair is active the
  whole stored state is unchanged.
\<close>

theorem remove_role_revokes:
  "length (userroles (remove_role d u r now)) = length (userroles d)
   \<and> (\<forall>i < length (userroles d).
         userroles (remove_role d u r now) ! i =
           (if ur_user (userroles d ! i) = u \<and> role_pk r = Some (ur_role (userroles d ! i))
                 \<and> ur_is_active (userroles d ! i)
            then (userroles d ! i)\<lparr>ur_is_active := False, ur_revoked_at := Some now\<rparr>
            else userroles d ! i))
   \<and> remove_role d u r now = d\<lparr>userroles := userroles (remove_role d u r now)\<rparr>
   \<and> ((\<forall>m \<in> set (userroles d). \<not> (ur_user m = u \<and> role_pk r = Some (ur_role m) \<and> ur_is_active m))
        \<longrightarrow> remove_role d u r now = d)"
proof (intro conjI allI impI)
  show "length (userroles (remove_role d u r now)) = length (userroles d)"
    by (simp add: remove_role_def)
next
  fix i assume "i < length (userroles d)"
  then show "userroles (remove_role d u r now) ! i =
           (if ur_user (userroles d ! i) = u \<and> role_pk r = Some (ur_role (userroles d ! i))
                 \<and> ur_is_active (userroles d ! i)
            then (userroles d ! i)\<lparr>ur_is_active := False, ur_revoked_at := Some now\<rparr>
            else userroles d ! i)"
    by (simp add: remove_role_def refers_to_def)
next
  show "remove_role d u r now = d\<lparr>userroles := userroles (remove_role d u r now)\<rparr>"
    by (simp add: remove_role_def)
next
  assume "\<forall>m \<in> set (userroles d). \<not> (ur_user m = u \<and> role_pk r = Some (ur_role m) \<and> ur_is_active m)"
  then show "remove_role d u r now = d" by (rule remove_role_noop)
qed

theorem remove_role_revokes_witness:
  "userroles db_assigned
     = [\<lparr>ur_id = 1, ur_user = 1, ur_role = 2, ur_is_active = True, ur_assigned_at = 10,
         ur_revoked_at = None, ur_assigned_by = None, ur_note = None\<rparr>]
   \<and> userroles (remove_role db_assigned 1 member_role 20)
     = [\<lparr>ur_id = 1, ur_user = 1, ur_role = 2, ur_is_active = False, ur_assigned_at = 10,
         ur_revoked_at = Some 20, ur_assigned_by = None, ur_note = None\<rparr>]
   \<and> remove_role db_revoked 1 member_role 40 = db_revoked"
proof -
  have d: "userroles db_assigned
     = [\<lparr>ur_id = 1, ur_user = 1, ur_role = 2, ur_is_active = True, ur_assigned_at = 10,
         ur_revoked_at = None, ur_assigned_by = None, ur_note = None\<rparr>]"
    by (simp add: db_assigned_def add_role_def db_base_def member_role_def pk_truthy_def
        UserRole_get_or_create_def pair_rows_def Let_def)
  have p: "role_pk member_role = Some 2" by (simp add: member_role_def)
  have "length (userroles (remove_role db_assigned 1 member_role 20)) = 1"
    and "userroles (remove_role db_assigned 1 member_role 20) ! 0
          = \<lparr>ur_id = 1, ur_user = 1, ur_role = 2, ur_is_active = False, ur_assigned_at = 10,
         ur_revoked_at = Some 20, ur_assigned_by = None, ur_note = None\<rparr>"
    using remove_role_revokes [of db_assigned 1 member_role 20] by (simp_all add: d p)
  then have e: "userroles (remove_role db_assigned 1 member_role 20)
     = [\<lparr>ur_id = 1, ur_user = 1, ur_role = 2, ur_is_active = False, ur_assigned_at = 10,
         ur_revoked_at = Some 20, ur_assigned_by = None, ur_note = None\<rparr>]"
    by (cases "userroles (remove_role db_assigned 1 member_role 20)") auto
  have "\<forall>m \<in> set (userroles db_revoked).
          \<not> (ur_user m = 1 \<and> role_pk member_role = Some (ur_role m) \<and> ur_is_active m)"
    using e by (simp add: db_revoked_def)
  then have "remove_role db_revoked 1 member_role 40 = db_revoked"
    using remove_role_revokes [of db_revoked 1 member_role 40] by blast
  with d e show ?thesis by simp
qed

section \<open>Reactivation through \<open>add_role\<close>\<close>

text \<open>
  Claim C1. The row of Alice and the member role was revoked at time 20. Assigning the role
  again at time 30 makes the row active and sets \<open>assigned_at\<close>, and keeps the assigner and
  the note since none is passed; but \<open>revoked_at\<close> is still \<open>Some 20\<close>: the \<open>not created\<close>
  branch never writes that field, unlike \<open>UserRole.activate\<close>, which sets it to \<open>None\<close>.
\<close>

theorem add_role_reactivation_keeps_revoked_at:
  "userroles db_revoked
     = [\<lparr>ur_id = 1, ur_user = 1, ur_role = 2, ur_is_active = False, ur_assigned_at = 10,
         ur_revoked_at = Some 20, ur_assigned_by = None, ur_note = None\<rparr>]
   \<and> add_role db_revoked 1 member_role None None 30 30
     = (Inr \<lparr>ur_id = 1, ur_user = 1, ur_role = 2, ur_is_active = True, ur_assigned_at = 30,
            ur_revoked_at = Some 20, ur_assigned_by = None, ur_note = None\<rparr>,
        db_revoked\<lparr>userroles :=
          [\<lparr>ur_id = 1, ur_user = 1, ur_role = 2, ur_is_active = True, ur_assigned_at = 30,
            ur_revoked_at = Some 20, ur_assigned_by = None, ur_note = None\<rparr>]\<rparr>)"
proof -
  have a: "userroles db_assigned
     = [\<lparr>ur_id = 1, ur_user = 1, ur_role = 2, ur_is_active = True, ur_assigned_at = 10,
         ur_revoked_at = None, ur_assigned_by = None, ur_note = None\<rparr>]"
    by (simp add: db_assigned_def add_role_def db_base_def member_role_def pk_truthy_def
        UserRole_get_or_create_def pair_rows_def Let_def)
  have r: "userroles db_revoked
     = [\<lparr>ur_id = 1, ur_user = 1, ur_role = 2, ur_is_active = False, ur_assigned_at = 10,
         ur_revoked_at = Some 20, ur_assigned_by = None, ur_note = None\<rparr>]"
    using a by (simp add: db_revoked_def remove_role_def refers_to_def member_role_def)
  have "add_role db_revoked 1 member_role None None 30 30
     = (Inr \<lparr>ur_id = 1, ur_user = 1, ur_role = 2, ur_is_active = True, ur_assigned_at = 30,
            ur_revoked_at = Some 20, ur_assigned_by = None, ur_note = None\<rparr>,
        db_revoked\<lparr>userroles :=
          [\<lparr>ur_id = 1, ur_user = 1, ur_role = 2, ur_is_active = True, ur_assigned_at = 30,
            ur_revoked_at = Some 20, ur_assigned_by = None, ur_note = None\<rparr>]\<rparr>)"
    using r by (simp add: add_role_def member_role_def pk_truthy_def UserRole_get_or_create_def
        pair_rows_def UserRole_save_def note_truthy_def Let_def)
  with r show ?thesis by simp
qed

section \<open>Registration\<close>

lemma queryset_get_Inr: "queryset_get xs = Inr x \<Longrightarrow> xs = [x]"
  by (cases xs rule: queryset_get.cases) simp_all

lemma email_free:
  "(filter (\<lambda>u. user_email u = e) (users d) = []) = (\<forall>u \<in> set (users d). user_email u \<noteq> e)"
  by (auto simp: filter_empty_conv)

lemma strip_literals:
  "strip ''dave'' = ''dave''" "strip ''dave@example.com'' = ''dave@example.com''"
  "strip ''correct-horse'' = ''correct-horse''" "strip ''correct-horse '' = ''correct-horse''"
  "strip ''correct-hors'' = ''correct-hors''" "strip '' alice@example.com '' = ''alice@example.com''"
  "strip ''Dave'' = ''Dave''" "strip ''D'' = ''D''"
  by (simp_all add: strip_def is_space_def)

text \<open>
  Claim C4, amended. A registration whose two passwords differ after the fields are
  cleaned, or whose cleaned email address is already that of a stored user, ends in a
  validation error keyed by field, and the stored state is exactly what it was: no user
  and no profile is created. When the field validators pass, the error is the one of
  \<open>validate\<close>: under \<open>password\<close> for a mismatch, otherwise under \<open>email\<close>.
\<close>

theorem register_rejects_invalid:
  assumes "req_password (to_internal_value request) \<noteq> req_password2 (to_internal_value request)
           \<or> (\<exists>u \<in> set (users d). user_email u = req_email (to_internal_value request))"
  shows "(\<exists>errs. errs \<noteq> [] \<and> fst (RegisterView_create fv d request now) = Inl (ValidationError errs))
       \<and> snd (RegisterView_create fv d request now) = d
       \<and> (fv d (to_internal_value request) = []
            \<and> req_password (to_internal_value request) \<noteq> req_password2 (to_internal_value request) \<longrightarrow>
            fst (RegisterView_create fv d request now)
              = Inl (ValidationError [(''password'', Password_fields_didnt_match)]))
       \<and> (fv d (to_internal_value request) = []
            \<and> req_password (to_internal_value request) = req_password2 (to_internal_value request) \<longrightarrow>
            fst (RegisterView_create fv d request now)
              = Inl (ValidationError [(''email'', Email_already_registered)]))"
proof (cases "fv d (to_internal_value request) = []")
  case False
  then show ?thesis by (simp add: RegisterView_create_def Let_def)
next
  case True
  show ?thesis
  proof (cases "req_password (to_internal_value request) = req_password2 (to_internal_value request)")
    case False
    with True show ?thesis
      by (simp add: RegisterView_create_def RegisterSerializer_validate_def Let_def)
  next
    case eq: True
    with assms have "filter (\<lambda>u. user_email u = req_email (to_internal_value request)) (users d) \<noteq> []"
      by (simp add: email_free)
    with True eq show ?thesis
      by (simp add: RegisterView_create_def RegisterSerializer_validate_def Let_def)
  qed
qed

theorem register_rejects_invalid_witness:
  "req_password (to_internal_value (dave_request\<lparr>req_password2 := ''correct-hors''\<rparr>))
     \<noteq> req_password2 (to_internal_value (dave_request\<lparr>req_password2 := ''correct-hors''\<rparr>))
   \<and> RegisterView_create fields_ok db_base (dave_request\<lparr>req_password2 := ''correct-hors''\<rparr>) 100
       = (Inl (ValidationError [(''password'', Password_fields_didnt_match)]), db_base)
   \<and> user_email alice = req_email (to_internal_value (dave_request\<lparr>req_email := '' alice@example.com ''\<rparr>))
   \<and> RegisterView_create fields_ok db_base (dave_request\<lparr>req_email := '' alice@example.com ''\<rparr>) 100
       = (Inl (ValidationError [(''email'', Email_already_registered)]), db_base)"
proof -
  let ?r1 = "dave_request\<lparr>req_password2 := ''correct-hors''\<rparr>"
  let ?r2 = "dave_request\<lparr>req_email := '' alice@example.com ''\<rparr>"
  have a: "req_password (to_internal_value ?r1) \<noteq> req_password2 (to_internal_value ?r1)"
    by (simp add: dave_request_def to_internal_value_def strip_literals)
  have e: "user_email alice = req_email (to_internal_value ?r2)"
    by (simp add: alice_def to_internal_value_def strip_literals)
  then have b: "\<exists>u \<in> set (users db_base). user_email u = req_email (to_internal_value ?r2)"
    by (simp add: db_base_def)
  have c: "req_password (to_internal_value ?r2) = req_password2 (to_internal_value ?r2)"
    by (simp add: dave_request_def to_internal_value_def)
  have f: "fields_ok db_base r = []" for r by (simp add: fields_ok_def)
  show ?thesis
    using a c e f
      register_rejects_invalid [of ?r1 db_base fields_ok 100]
      register_rejects_invalid [of ?r2 db_base fields_ok 100, OF disjI2, OF b]
    by (simp add: prod_eq_iff)
qed

lemma RegisterSerializer_create_eq:
  "RegisterSerializer_create d request = (new_user d request, with_new_user d request)"
  by (simp add: RegisterSerializer_create_def create_or_ensure_profile_def new_user_def
      with_new_user_def Let_def)

lemma register_valid:
  assumes "fv d (to_internal_value request) = []"
    "req_password (to_internal_value request) = req_password2 (to_internal_value request)"
    "\<forall>u \<in> set (users d). user_email u \<noteq> req_email (to_internal_value request)"
  shows "RegisterView_create fv d request now =
           (case Role_get d 2 of
              Inl DoesNotExist \<Rightarrow>
                issue_response (with_new_user d (to_internal_value request))
                  (new_user d (to_internal_value request)) now
            | Inl e \<Rightarrow> (Inl e, with_new_user d (to_internal_value request))
            | Inr default_role \<Rightarrow>
                (case add_role (with_new_user d (to_internal_value request)) (user_seq d)
                        default_role None None now now of
                   (Inl e, d2) \<Rightarrow> (Inl e, d2)
                 | (Inr ur, d2) \<Rightarrow> issue_response d2 (new_user d (to_internal_value request)) now))"
proof -
  let ?a = "to_internal_value request"
  have "RegisterSerializer_validate d ?a = Inr ?a"
    using assms(2,3) by (simp add: RegisterSerializer_validate_def email_free)
  moreover have "Role_get (with_new_user d ?a) 2 = Role_get d 2"
    by (simp add: Role_get_def with_new_user_def)
  moreover have "user_id (new_user d ?a) = user_seq d" by (simp add: new_user_def)
  ultimately show ?thesis
    using assms(1)
    by (simp add: RegisterView_create_def RegisterSerializer_create_eq Let_def
        split: sum.split error.split)
qed

text \<open>
  Claim C4 as stated fails: with \<open>password2\<close> the password followed by a blank, the two
  submitted values differ, yet the cleaned values agree and the registration succeeds and
  stores the user.
\<close>

theorem register_trailing_blank_counterexample:
  "req_password (dave_request\<lparr>req_password2 := ''correct-horse ''\<rparr>)
     \<noteq> req_password2 (dave_request\<lparr>req_password2 := ''correct-horse ''\<rparr>)
   \<and> \<not> isl (fst (RegisterView_create fields_ok db_no_roles
                   (dave_request\<lparr>req_password2 := ''correct-horse ''\<rparr>) 100))
   \<and> map user_username (users (snd (RegisterView_create fields_ok db_no_roles
                   (dave_request\<lparr>req_password2 := ''correct-horse ''\<rparr>) 100)))
       = [''alice'', ''dave'']
   \<and> map user_password (users (snd (RegisterView_create fields_ok db_no_roles
                   (dave_request\<lparr>req_password2 := ''correct-horse ''\<rparr>) 100)))
       = [''s3cret-pass'', ''correct-horse'']"
proof -
  let ?r = "dave_request\<lparr>req_password2 := ''correct-horse ''\<rparr>"
  have t: "to_internal_value ?r = dave_request"
    by (simp add: to_internal_value_def dave_request_def strip_literals)
  have a: "fields_ok db_no_roles (to_internal_value ?r) = []" by (simp add: fields_ok_def)
  have b: "req_password (to_internal_value ?r) = req_password2 (to_internal_value ?r)"
    unfolding t by (simp add: dave_request_def)
  have c: "\<forall>u \<in> set (users db_no_roles). user_email u \<noteq> req_email (to_internal_value ?r)"
    unfolding t by (simp add: db_no_roles_def db_base_def alice_def dave_request_def)
  have "Role_get db_no_roles 2 = Inl DoesNotExist" by (simp add: Role_get_def db_no_roles_def)
  then have "RegisterView_create fields_ok db_no_roles ?r 100
               = issue_response (with_new_user db_no_roles dave_request) (new_user db_no_roles dave_request) 100"
    using register_valid [of fields_ok db_no_roles ?r 100, OF a b c] by (simp add: t)
  then show ?thesis
    by (simp add: issue_response_def RefreshToken_for_user_def access_token_def Let_def
        with_new_user_def new_user_def db_no_roles_def db_base_def alice_def dave_request_def)
qed

lemma issue_response_eq:
  "issue_response d u now =
     (Inr \<lparr>resp_refresh = \<lparr>tok_type = Refresh, tok_jti = jti_seq d, tok_user = user_id u,
                            tok_exp = now + REFRESH_TOKEN_LIFETIME, tok_claims = None\<rparr>,
           resp_access = \<lparr>tok_type = Access, tok_jti = Suc (jti_seq d), tok_user = user_id u,
                           tok_exp = now + ACCESS_TOKEN_LIFETIME, tok_claims = None\<rparr>,
           resp_username = user_username u, resp_email = user_email u,
           resp_roles = map role_slug (get_active_roles d (user_id u))\<rparr>,
      d\<lparr>outstanding := outstanding d @ [\<lparr>tok_type = Refresh, tok_jti = jti_seq d, tok_user = user_id u,
                            tok_exp = now + REFRESH_TOKEN_LIFETIME, tok_claims = None\<rparr>],
        jti_seq := Suc (Suc (jti_seq d))\<rparr>)"
  by (simp add: issue_response_def RefreshToken_for_user_def access_token_def Let_def get_active_roles_def)

lemma no_rows_no_roles:
  assumes "\<forall>m \<in> set (userroles d). ur_user m \<noteq> u"
  shows "get_active_roles d u = []"
proof -
  have "filter (\<lambda>m. refers_to m r \<and> ur_user m = u \<and> ur_is_active m) (userroles d) = []" for r
    using assms by (simp add: filter_empty_conv)
  then show ?thesis by (simp add: get_active_roles_def)
qed

text \<open>
  Claim C9. A valid registration (field validators pass on the cleaned values, cleaned
  passwords equal, cleaned email unused) in a state with no role of key 2 succeeds. The
  response carries a fresh refresh token and a fresh access token for the new user, with
  the configured lifetimes and distinct identifiers, the refresh token recorded as
  outstanding; it carries the cleaned username and email, and the slugs of the user's
  active roles, which are none when no row of the through table points at the new key.
  The state left behind is the old one with the user, its profile and the outstanding
  token added: the through table is untouched.
\<close>

theorem register_without_default_role:
  assumes "fv d (to_internal_value request) = []"
    "req_password (to_internal_value request) = req_password2 (to_internal_value request)"
    "\<forall>u \<in> set (users d). user_email u \<noteq> req_email (to_internal_value request)"
    "\<forall>r \<in> set (roles d). role_pk r \<noteq> Some 2"
  shows "\<exists>resp d'. RegisterView_create fv d request now = (Inr resp, d')
       \<and> resp_refresh resp = \<lparr>tok_type = Refresh, tok_jti = jti_seq d, tok_user = user_seq d,
                                tok_exp = now + REFRESH_TOKEN_LIFETIME, tok_claims = None\<rparr>
       \<and> resp_access resp = \<lparr>tok_type = Access, tok_jti = Suc (jti_seq d), tok_user = user_seq d,
                               tok_exp = now + ACCESS_TOKEN_LIFETIME, tok_claims = None\<rparr>
       \<and> resp_username resp = strip (req_username request)
       \<and> resp_email resp = strip (req_email request)
       \<and> resp_roles resp = map role_slug (get_active_roles d' (user_seq d))
       \<and> ((\<forall>m \<in> set (userroles d). ur_user m \<noteq> user_seq d) \<longrightarrow> resp_roles resp = [])
       \<and> d' = d\<lparr>users := users d @ [new_user d (to_internal_value request)],
                 profiles := profiles d @
                   [\<lparr>profile_user = user_seq d, profile_phone = None, profile_bio = None\<rparr>],
                 outstanding := outstanding d @ [resp_refresh resp],
                 user_seq := Suc (user_seq d),
                 jti_seq := Suc (Suc (jti_seq d))\<rparr>
       \<and> userroles d' = userroles d"
proof -
  let ?a = "to_internal_value request"
  let ?d = "with_new_user d ?a"
  have "filter (\<lambda>r. role_pk r = Some 2) (roles d) = []"
    using assms(4) by (simp add: filter_empty_conv)
  then have "Role_get d 2 = Inl DoesNotExist" by (simp add: Role_get_def)
  then have run: "RegisterView_create fv d request now = issue_response ?d (new_user d ?a) now"
    by (simp add: register_valid [of fv d request, OF assms(1,2,3)])
  have roles: "get_active_roles (snd (issue_response ?d (new_user d ?a) now)) (user_seq d) = []"
    if "\<forall>m \<in> set (userroles d). ur_user m \<noteq> user_seq d"
    using that by (intro no_rows_no_roles) (simp add: issue_response_eq with_new_user_def)
  have fields: "req_username ?a = strip (req_username request)" "req_email ?a = strip (req_email request)"
    by (simp_all add: to_internal_value_def)
  have same: "get_active_roles (snd (issue_response ?d (new_user d ?a) now)) (user_seq d)
              = get_active_roles ?d (user_seq d)"
    by (simp add: issue_response_eq get_active_roles_def)
  show ?thesis
    using roles same
    by (simp add: run issue_response_eq new_user_def with_new_user_def fields)
qed

theorem register_without_default_role_witness:
  "fields_ok db_editor (to_internal_value dave_request) = []
   \<and> roles db_editor = [editor_role] \<and> role_pk editor_role = Some 3
   \<and> map ur_user (userroles db_editor) = [1] \<and> user_seq db_editor = 2
   \<and> (\<exists>resp d'. RegisterView_create fields_ok db_editor dave_request 100 = (Inr resp, d')
        \<and> resp_refresh resp = \<lparr>tok_type = Refresh, tok_jti = 1, tok_user = 2,
                                 tok_exp = 86500, tok_claims = None\<rparr>
        \<and> resp_access resp = \<lparr>tok_type = Access, tok_jti = 2, tok_user = 2,
                                tok_exp = 1900, tok_claims = None\<rparr>
        \<and> resp_username resp = ''dave'' \<and> resp_email resp = ''dave@example.com''
        \<and> resp_roles resp = []
        \<and> outstanding d' = [resp_refresh resp]
        \<and> map user_username (users d') = [''alice'', ''dave'']
        \<and> userroles d' = userroles db_editor)"
proof -
  have t: "to_internal_value dave_request = dave_request"
    by (simp add: to_internal_value_def dave_request_def strip_literals)
  have a: "fields_ok db_editor (to_internal_value dave_request) = []" by (simp add: fields_ok_def)
  have b: "req_password (to_internal_value dave_request) = req_password2 (to_internal_value dave_request)"
    unfolding t by (simp add: dave_request_def)
  have c: "\<forall>u \<in> set (users db_editor). user_email u \<noteq> req_email (to_internal_value dave_request)"
    unfolding t by (simp add: db_editor_def db_base_def alice_def dave_request_def)
  have d: "\<forall>r \<in> set (roles db_editor). role_pk r \<noteq> Some 2"
    by (simp add: db_editor_def editor_role_def)
  have e: "roles db_editor = [editor_role]" "role_pk editor_role = Some 3"
    "map ur_user (userroles db_editor) = [1]" "user_seq db_editor = 2" "jti_seq db_editor = 1"
    "outstanding db_editor = []" "map user_username (users db_editor) = [''alice'']"
    by (simp_all add: db_editor_def db_base_def editor_role_def alice_def)
  have g: "\<forall>m \<in> set (userroles db_editor). ur_user m \<noteq> user_seq db_editor"
    by (simp add: db_editor_def db_base_def)
  have s: "strip (req_username dave_request) = ''dave''"
    "strip (req_email dave_request) = ''dave@example.com''"
    by (simp_all add: dave_request_def strip_literals)
  from register_without_default_role [of fields_ok db_editor dave_request 100, OF a b c d]
  obtain resp d' where r: "RegisterView_create fields_ok db_editor dave_request 100 = (Inr resp, d')"
    "resp_refresh resp = \<lparr>tok_type = Refresh, tok_jti = jti_seq db_editor, tok_user = user_seq db_editor,
                           tok_exp = 100 + REFRESH_TOKEN_LIFETIME, tok_claims = None\<rparr>"
    "resp_access resp = \<lparr>tok_type = Access, tok_jti = Suc (jti_seq db_editor), tok_user = user_seq db_editor,
                          tok_exp = 100 + ACCESS_TOKEN_LIFETIME, tok_claims = None\<rparr>"
    "resp_username resp = strip (req_username dave_request)"
    "resp_email resp = strip (req_email dave_request)"
    "(\<forall>m \<in> set (userroles db_editor). ur_user m \<noteq> user_seq db_editor) \<longrightarrow> resp_roles resp = []"
    "d' = db_editor\<lparr>users := users db_editor @ [new_user db_editor (to_internal_value dave_request)],
                 profiles := profiles db_editor @
                   [\<lparr>profile_user = user_seq db_editor, profile_phone = None, profile_bio = None\<rparr>],
                 outstanding := outstanding db_editor @ [resp_refresh resp],
                 user_seq := Suc (user_seq db_editor),
                 jti_seq := Suc (Suc (jti_seq db_editor))\<rparr>"
    by blast
  have "resp_refresh resp = \<lparr>tok_type = Refresh, tok_jti = 1, tok_user = 2,
                                 tok_exp = 86500, tok_claims = None\<rparr>"
    "resp_access resp = \<lparr>tok_type = Access, tok_jti = 2, tok_user = 2,
                                tok_exp = 1900, tok_claims = None\<rparr>"
    using r(2,3) by (simp_all add: e REFRESH_TOKEN_LIFETIME_def ACCESS_TOKEN_LIFETIME_def)
  moreover have "resp_username resp = ''dave''" "resp_email resp = ''dave@example.com''"
    using r(4,5) by (simp_all add: s)
  moreover have "resp_roles resp = []" using r(6) g by blast
  moreover have "outstanding d' = [resp_refresh resp]"
    "map user_username (users d') = [''alice'', ''dave'']" "userroles d' = userroles db_editor"
    using r(7) unfolding t by (simp_all add: e new_user_def dave_request_def)
  ultimately show ?thesis using a e(1,2,3,4) r(1) by auto
qed

text \<open>
  Claim C10. A valid registration in a state whose role of key 2 is inactive does not
  succeed: the \<open>ValueError\<close> of \<open>add_role\<close> is not caught and leaves the handler. The user
  and its profile have been stored by then and stay stored; no row of the through table is
  written.
\<close>

theorem register_with_inactive_default_role:
  assumes "fv d (to_internal_value request) = []"
    "req_password (to_internal_value request) = req_password2 (to_internal_value request)"
    "\<forall>u \<in> set (users d). user_email u \<noteq> req_email (to_internal_value request)"
    "Role_get d 2 = Inr r" "\<not> role_is_active r"
  shows "fst (RegisterView_create fv d request now) = Inl (ValueError ''cannot assign an inactive Role'')
       \<and> snd (RegisterView_create fv d request now) = with_new_user d (to_internal_value request)
       \<and> users (snd (RegisterView_create fv d request now))
           = users d @ [new_user d (to_internal_value request)]
       \<and> userroles (snd (RegisterView_create fv d request now)) = userroles d"
proof -
  let ?d = "with_new_user d (to_internal_value request)"
  have "filter (\<lambda>r. role_pk r = Some 2) (roles d) = [r]"
    using assms(4) by (simp add: Role_get_def queryset_get_Inr)
  then have "r \<in> set (filter (\<lambda>r. role_pk r = Some 2) (roles d))" by simp
  then have "role_pk r = Some 2" by simp
  then have "add_role ?d (user_seq d) r None None now now
               = (Inl (ValueError ''cannot assign an inactive Role''), ?d)"
    using assms(5) by (simp add: add_role_def pk_truthy_def)
  then show ?thesis
    by (simp add: register_valid [of fv d request, OF assms(1,2,3)] assms(4) with_new_user_def)
qed

theorem register_with_inactive_default_role_witness:
  "fields_ok db_role_disabled (to_internal_value dave_request) = []
   \<and> req_password (to_internal_value dave_request) = req_password2 (to_internal_value dave_request)
   \<and> Role_get db_role_disabled 2 = Inr (member_role\<lparr>role_is_active := False\<rparr>)
   \<and> fst (RegisterView_create fields_ok db_role_disabled dave_request 100)
       = Inl (ValueError ''cannot assign an inactive Role'')
   \<and> map user_username (users (snd (RegisterView_create fields_ok db_role_disabled dave_request 100)))
       = [''alice'', ''dave'']"
proof -
  have t: "to_internal_value dave_request = dave_request"
    by (simp add: to_internal_value_def dave_request_def strip_literals)
  have a: "fields_ok db_role_disabled (to_internal_value dave_request) = []" by (simp add: fields_ok_def)
  have b: "req_password (to_internal_value dave_request) = req_password2 (to_internal_value dave_request)"
    unfolding t by (simp add: dave_request_def)
  have c: "\<forall>u \<in> set (users db_role_disabled). user_email u \<noteq> req_email (to_internal_value dave_request)"
    unfolding t by (simp add: db_role_disabled_def db_base_def alice_def dave_request_def)
  have d: "Role_get db_role_disabled 2 = Inr (member_role\<lparr>role_is_active := False\<rparr>)"
    by (simp add: Role_get_def db_role_disabled_def member_role_def)
  have e: "\<not> role_is_active (member_role\<lparr>role_is_active := False\<rparr>)" by simp
  have "map user_username (users (with_new_user db_role_disabled (to_internal_value dave_request)))
          = [''alice'', ''dave'']"
    unfolding t by (simp add: with_new_user_def new_user_def db_role_disabled_def db_base_def alice_def dave_request_def)
  then show ?thesis
    using a b d register_with_inactive_default_role [of fields_ok db_role_disabled dave_request _ 100, OF a b c d e]
    by simp
qed

section \<open>Login with an email address\<close>

lemma get_by_email_unique:
  assumes "filter (\<lambda>v. user_email v = e) (users d) = [u]"
  shows "User_get_by_email d e = Inr u"
  using assms by (simp add: User_get_by_email_def)

text \<open>
  Claim C5, amended. For a stored user whose email address contains \<open>@\<close> and is the address of
  no other user, and whose username either contains no \<open>@\<close> or is the email address of no
  other user, a login with the email address gives exactly the outcome of a login with the
  username, whatever the credential check does with the resolved name.
\<close>

theorem login_by_email_as_by_username:
  assumes "filter (\<lambda>v. user_email v = user_email u) (users d) = [u]"
    and "CHR ''@'' \<in> set (user_email u)"
    and "CHR ''@'' \<notin> set (user_username u)
         \<or> (\<forall>v \<in> set (users d). user_email v = user_username u \<longrightarrow> v = u)"
  shows "CustomTokenObtainPairSerializer_validate sv d (user_email u, p)
         = CustomTokenObtainPairSerializer_validate sv d (user_username u, p)"
proof -
  have nonempty: "user_email u \<noteq> []" using assms(2) by auto
  have by_email: "CustomTokenObtainPairSerializer_validate sv d (user_email u, p) = sv d (user_username u, p)"
    using assms(2) nonempty get_by_email_unique [OF assms(1)]
    by (simp add: CustomTokenObtainPairSerializer_validate_def)
  have by_name: "CustomTokenObtainPairSerializer_validate sv d (user_username u, p) = sv d (user_username u, p)"
  proof (cases "CHR ''@'' \<in> set (user_username u)")
    case False
    then show ?thesis by (simp add: CustomTokenObtainPairSerializer_validate_def)
  next
    case at: True
    with assms(3) have others: "\<forall>v \<in> set (users d). user_email v = user_username u \<longrightarrow> v = u"
      by blast
    show ?thesis
    proof (cases "filter (\<lambda>v. user_email v = user_username u) (users d) = []")
      case True
      then have "User_get_by_email d (user_username u) = Inl DoesNotExist"
        by (simp add: User_get_by_email_def)
      then show ?thesis by (simp add: CustomTokenObtainPairSerializer_validate_def)
    next
      case False
      then obtain v where "v \<in> set (users d)" "user_email v = user_username u"
        by (auto simp: filter_empty_conv)
      with others have "user_email u = user_username u" by auto
      then have "User_get_by_email d (user_username u) = Inr u"
        using get_by_email_unique [OF assms(1)] by simp
      then show ?thesis by (simp add: CustomTokenObtainPairSerializer_validate_def)
    qed
  qed
  show ?thesis by (simp only: by_email by_name)
qed

lemmas login_defs =
  CustomTokenObtainPairSerializer_validate_def TokenObtainPairSerializer_validate_def
  User_get_by_email_def authenticate_def get_token_def RefreshToken_for_user_def access_token_def
  get_active_roles_def bob_def carol_def db_clash_def db_shared_email_def db_plain_def db_base_def alice_def Let_def

theorem login_by_email_as_by_username_witness:
  "filter (\<lambda>v. user_email v = user_email carol) (users db_clash) = [carol]
   \<and> CHR ''@'' \<in> set (user_email carol) \<and> CHR ''@'' \<notin> set (user_username carol)
   \<and> CustomTokenObtainPairSerializer_validate (TokenObtainPairSerializer_validate 0) db_clash
         (user_email carol, ''pw-of-carol'')
       = CustomTokenObtainPairSerializer_validate (TokenObtainPairSerializer_validate 0) db_clash
         (user_username carol, ''pw-of-carol'')
   \<and> \<not> isl (fst (CustomTokenObtainPairSerializer_validate (TokenObtainPairSerializer_validate 0) db_clash
         (user_username carol, ''pw-of-carol'')))
   \<and> filter (\<lambda>v. user_email v = user_email bob) (users db_bob) = [bob]
   \<and> CHR ''@'' \<in> set (user_email bob) \<and> CHR ''@'' \<in> set (user_username bob)
   \<and> CustomTokenObtainPairSerializer_validate (TokenObtainPairSerializer_validate 0) db_bob
         (user_email bob, ''pw-of-bob'')
       = CustomTokenObtainPairSerializer_validate (TokenObtainPairSerializer_validate 0) db_bob
         (user_username bob, ''pw-of-bob'')
   \<and> \<not> isl (fst (CustomTokenObtainPairSerializer_validate (TokenObtainPairSerializer_validate 0) db_bob
         (user_username bob, ''pw-of-bob'')))"
proof -
  have a: "filter (\<lambda>v. user_email v = user_email carol) (users db_clash) = [carol]"
    by (simp add: bob_def carol_def db_clash_def)
  have b: "CHR ''@'' \<in> set (user_email carol)" by (simp add: carol_def)
  have c: "CHR ''@'' \<notin> set (user_username carol)" by (simp add: carol_def)
  have d: "\<not> isl (fst (CustomTokenObtainPairSerializer_validate (TokenObtainPairSerializer_validate 0) db_clash
         (user_username carol, ''pw-of-carol'')))"
    by (simp add: login_defs)
  have a': "filter (\<lambda>v. user_email v = user_email bob) (users db_bob) = [bob]"
    by (simp add: bob_def db_bob_def)
  have b': "CHR ''@'' \<in> set (user_email bob)" "CHR ''@'' \<in> set (user_username bob)"
    by (simp_all add: bob_def)
  have c': "\<forall>v \<in> set (users db_bob). user_email v = user_username bob \<longrightarrow> v = bob"
    by (simp add: bob_def db_bob_def)
  have d': "\<not> isl (fst (CustomTokenObtainPairSerializer_validate (TokenObtainPairSerializer_validate 0) db_bob
         (user_username bob, ''pw-of-bob'')))"
    by (simp add: login_defs db_bob_def)
  show ?thesis
    using a b c d a' b' d'
      login_by_email_as_by_username [OF a b disjI1, OF c, of "TokenObtainPairSerializer_validate 0" "''pw-of-carol''"]
      login_by_email_as_by_username [OF a' b'(1) disjI2, OF c', of "TokenObtainPairSerializer_validate 0" "''pw-of-bob''"]
    by simp
qed

text \<open>
  Claim C5 as stated fails. With Bob's username being Carol's email address, Bob's login by
  email succeeds and his login by username is resolved to Carol and fails. With two users
  sharing an address, login by that address ends in \<open>MultipleObjectsReturned\<close> while login
  by username succeeds. With a stored address that has no \<open>@\<close>, login by the address is not
  resolved and fails while login by username succeeds.
\<close>

theorem login_by_email_counterexample:
  "bob \<in> set (users db_clash)
   \<and> \<not> isl (fst (CustomTokenObtainPairSerializer_validate (TokenObtainPairSerializer_validate 0) db_clash
         (user_email bob, ''pw-of-bob'')))
   \<and> fst (CustomTokenObtainPairSerializer_validate (TokenObtainPairSerializer_validate 0) db_clash
         (user_username bob, ''pw-of-bob'')) = Inl AuthenticationFailed
   \<and> bob \<in> set (users db_shared_email)
   \<and> fst (CustomTokenObtainPairSerializer_validate (TokenObtainPairSerializer_validate 0) db_shared_email
         (user_email bob, ''pw-of-bob'')) = Inl MultipleObjectsReturned
   \<and> \<not> isl (fst (CustomTokenObtainPairSerializer_validate (TokenObtainPairSerializer_validate 0) db_shared_email
         (user_username bob, ''pw-of-bob'')))
   \<and> alice\<lparr>user_email := ''alice.example.com''\<rparr> \<in> set (users db_plain)
   \<and> fst (CustomTokenObtainPairSerializer_validate (TokenObtainPairSerializer_validate 0) db_plain
         (''alice.example.com'', ''s3cret-pass'')) = Inl AuthenticationFailed
   \<and> \<not> isl (fst (CustomTokenObtainPairSerializer_validate (TokenObtainPairSerializer_validate 0) db_plain
         (''alice'', ''s3cret-pass'')))"
  by (simp add: login_defs)

section \<open>Refresh tokens are single-use\<close>

text \<open>
  Claim C6. Once a refresh with token \<open>t\<close> has succeeded, \<open>t\<close> is on the blacklist, the
  answer holds a new access token and a new refresh token (recorded as outstanding), and in
  every later state that still holds that blacklist a refresh with \<open>t\<close> ends in the
  invalid-token error and changes nothing.
\<close>

theorem refresh_token_single_use:
  assumes "fst (TokenRefreshView_post d t now) = Inr p"
    and "set (blacklisted (snd (TokenRefreshView_post d t now))) \<subseteq> set (blacklisted d')"
  shows "fst (TokenRefreshView_post d' t now') = Inl InvalidToken
       \<and> snd (TokenRefreshView_post d' t now') = d'
       \<and> tok_jti t \<in> set (blacklisted (snd (TokenRefreshView_post d t now)))
       \<and> (\<exists>a t'. p = (a, Some t') \<and> tok_type a = Access \<and> tok_type t' = Refresh
              \<and> tok_user a = tok_user t \<and> tok_user t' = tok_user t
              \<and> t' \<in> set (outstanding (snd (TokenRefreshView_post d t now))))"
proof -
  have ok: "refresh_token_ok d t now"
    using assms(1) by (auto simp: TokenRefreshView_post_def split: if_splits)
  have bl: "tok_jti t \<in> set (blacklisted (snd (TokenRefreshView_post d t now)))"
    using ok by (simp add: TokenRefreshView_post_def access_token_def ROTATE_REFRESH_TOKENS_def
        BLACKLIST_AFTER_ROTATION_def Let_def)
  with assms(2) have "tok_jti t \<in> set (blacklisted d')" by blast
  then have "\<not> refresh_token_ok d' t now'" by (simp add: refresh_token_ok_def)
  then have again: "TokenRefreshView_post d' t now' = (Inl InvalidToken, d')"
    by (simp add: TokenRefreshView_post_def)
  have "\<exists>a t'. p = (a, Some t') \<and> tok_type a = Access \<and> tok_type t' = Refresh
              \<and> tok_user a = tok_user t \<and> tok_user t' = tok_user t
              \<and> t' \<in> set (outstanding (snd (TokenRefreshView_post d t now)))"
    using assms(1) ok
    by (auto simp: TokenRefreshView_post_def access_token_def ROTATE_REFRESH_TOKENS_def
        BLACKLIST_AFTER_ROTATION_def Let_def refresh_token_ok_def)
  with again bl show ?thesis by simp
qed

theorem refresh_token_single_use_witness:
  "\<not> isl (fst (TokenRefreshView_post db_logged_in alice_refresh 100))
   \<and> fst (TokenRefreshView_post (snd (TokenRefreshView_post db_logged_in alice_refresh 100)) alice_refresh 200)
       = Inl InvalidToken"
proof -
  have a: "\<not> isl (fst (TokenRefreshView_post db_logged_in alice_refresh 100))"
    by (simp add: TokenRefreshView_post_def refresh_token_ok_def alice_refresh_def db_logged_in_def
        RefreshToken_for_user_def access_token_def db_base_def alice_def REFRESH_TOKEN_LIFETIME_def
        ROTATE_REFRESH_TOKENS_def BLACKLIST_AFTER_ROTATION_def Let_def)
  then obtain p where p: "fst (TokenRefreshView_post db_logged_in alice_refresh 100) = Inr p"
    by (cases "fst (TokenRefreshView_post db_logged_in alice_refresh 100)") auto
  show ?thesis
    using a refresh_token_single_use [OF p subset_refl, of 200] by simp
qed

end
